theory Spec2Isabelle
  imports Complex_Main
begin

section \<open>Arithmetic and library conventions\<close>

text \<open>
  The repository is a collection of closed-form formulas over Python / numpy floating-point
  numbers. A number is a \<^typ>\<open>real\<close>. In the formulas of constants.py, in the regression
  and in the seasonal profiles, \<open>+\<close>, \<open>-\<close>, \<open>*\<close>, \<open>/\<close> are read as the field operations,
  \<open>x**2\<close> and \<open>x**3\<close> as powers with a natural exponent, \<open>x**-p\<close> as \<open>x powr (- p)\<close>, and
  \<open>np.log\<close>, \<open>np.exp\<close>, \<open>np.sqrt\<close>, \<open>np.sin\<close>, \<open>np.pi\<close> as \<open>ln\<close>, \<open>exp\<close>, \<open>sqrt\<close>, \<open>sin\<close>,
  \<open>pi\<close>: what is proved of them is either an identity between the same expressions or
  holds with a margin far above rounding. The loop-year correction of the historical
  loader is different: whether its year closes depends on rounding, so its arithmetic is
  the rounded arithmetic of binary64 below. Python integers are \<^typ>\<open>int\<close>, arrays are
  lists, a dictionary is a map.

  Exceptions are values. An exception is \<open>Raised\<close> when a \<open>raise\<close> statement of the
  library itself throws it, and \<open>Propagated\<close> when it is thrown inside numpy or pandas
  and passes through the library unchanged.
\<close>

datatype exn = ValueError string | IndexError | KeyError string

datatype error = Raised exn | Propagated exn

text \<open>An exception of a step ends the call; otherwise the rest runs on the step's value.\<close>

definition on_ok :: "error + 'a \<Rightarrow> ('a \<Rightarrow> error + 'b) \<Rightarrow> error + 'b" where
  "on_ok r f = (case r of Inl e \<Rightarrow> Inl e | Inr x \<Rightarrow> f x)"

subsection \<open>Double-precision arithmetic\<close>

text \<open>
  IEEE 754 binary64 with rounding to nearest, ties to even: a non-zero \<open>x\<close> with
  \<open>2^e \<le> |x| < 2^(e+1)\<close> is rounded to the nearest multiple of \<open>2^(e-52)\<close>. The
  exponent range is not bounded, so overflow, subnormal numbers, NaN and infinities are
  not modelled; sums and differences of doubles that do not overflow round as here.
\<close>

definition round_half_even :: "real \<Rightarrow> int" where
  "round_half_even y =
     (let f = \<lfloor>y\<rfloor>
      in if y - real_of_int f < 1 / 2 then f
         else if 1 / 2 < y - real_of_int f then f + 1
         else if even f then f else f + 1)"

definition ulp_exponent :: "real \<Rightarrow> int" where
  "ulp_exponent x = \<lfloor>log 2 \<bar>x\<bar>\<rfloor> - 52"

definition fl :: "real \<Rightarrow> real" where
  "fl x =
     (if x = 0 then 0
      else real_of_int (round_half_even (x / 2 powr real_of_int (ulp_exponent x)))
             * 2 powr real_of_int (ulp_exponent x))"

definition is_double :: "real \<Rightarrow> bool" where
  "is_double x \<longleftrightarrow> fl x = x"

definition fadd :: "real \<Rightarrow> real \<Rightarrow> real" where
  "fadd x y = fl (x + y)"

definition fsub :: "real \<Rightarrow> real \<Rightarrow> real" where
  "fsub x y = fl (x - y)"

definition fmul :: "real \<Rightarrow> real \<Rightarrow> real" where
  "fmul x y = fl (x * y)"

definition fdiv :: "real \<Rightarrow> real \<Rightarrow> real" where
  "fdiv x y = fl (x / y)"

subsection \<open>numpy operations used by the library\<close>

text \<open>\<open>np.arange(n)\<close>: the integers \<open>0, ..., n - 1\<close>.\<close>

definition np_arange :: "nat \<Rightarrow> int list" where
  "np_arange n = map int [0..<n]"

text \<open>
  \<open>np.linspace(start, stop, num)\<close> on doubles, for \<open>num > 1\<close> (end point included), as
  numpy computes it: \<open>delta = stop - start\<close> and \<open>step = delta / (num - 1)\<close>; element \<open>i\<close>
  is \<open>i * step\<close>, or \<open>(i / (num - 1)) * delta\<close> when the step is zero; \<open>start\<close> is added
  to every element; and the last element is then overwritten with \<open>stop\<close>.
\<close>

definition np_linspace :: "real \<Rightarrow> real \<Rightarrow> nat \<Rightarrow> real list" where
  "np_linspace start stop num =
     (let divisor = real (num - 1);
          delta = fsub stop start;
          step = fdiv delta divisor;
          y = (if step = 0 then map (\<lambda>i. fmul (fdiv (real i) divisor) delta) [0..<num]
               else map (\<lambda>i. fmul (real i) step) [0..<num])
      in (map (\<lambda>v. fadd v start) y)[num - 1 := stop])"

text \<open>\<open>np.hstack((a, b))\<close> of two one-dimensional arrays.\<close>

definition np_hstack :: "'a list \<times> 'a list \<Rightarrow> 'a list" where
  "np_hstack p = fst p @ snd p"

text \<open>
  \<open>np.tile(a, reps)\<close> of a one-dimensional array with an integer \<open>reps\<close>: \<open>reps\<close>
  copies of \<open>a\<close> in a row, the empty array for \<open>reps = 0\<close>, and a ValueError for a
  negative \<open>reps\<close>.
\<close>

definition np_tile :: "'a list \<Rightarrow> int \<Rightarrow> error + 'a list" where
  "np_tile a reps =
     (if reps < 0 then Inl (Propagated (ValueError ''negative dimensions are not allowed''))
      else Inr (concat (replicate (nat reps) a)))"

text \<open>
  The slice \<open>a[:k]\<close>: the first \<open>k\<close> elements (all of them when \<open>a\<close> is shorter); a
  negative \<open>k\<close> counts from the end.
\<close>

definition slice_to :: "'a list \<Rightarrow> int \<Rightarrow> 'a list" where
  "slice_to a k = (if 0 \<le> k then take (nat k) a else take (length a - nat (- k)) a)"

section \<open>constants.py\<close>

definition BORON_COEFFICIENT :: real where
  "BORON_COEFFICIENT = 0.0004157 / 35"

definition calculate_k0 :: "real \<Rightarrow> real \<Rightarrow> real" where
  "calculate_k0 temp_kelvin salinity =
     (let temp_k100 = temp_kelvin / 100;
          ln_k0 = - 60.2409
                  + 93.4517 / temp_k100
                  + 23.3585 * ln temp_k100
                  + salinity * (0.023517 - 0.023656 * temp_k100 + 0.0047036 * temp_k100^2)
      in exp ln_k0)"

definition schmidt :: "real \<Rightarrow> real" where
  "schmidt temp_celsius =
     2073.1 - 125.62 * temp_celsius + 3.6276 * temp_celsius^2 - 0.043219 * temp_celsius^3"

definition calculate_kappa :: "real \<Rightarrow> real \<Rightarrow> real" where
  "calculate_kappa wind_speed temp_celsius =
     (let sc = schmidt temp_celsius
      in 0.251 * wind_speed^2 * (sc / 660) powr (- 0.5))"

definition piston_velocity :: "real \<Rightarrow> real \<Rightarrow> real \<Rightarrow> real" where
  "piston_velocity wind_speed temp_celsius salinity =
     0.24 * calculate_kappa wind_speed temp_celsius
          * calculate_k0 (temp_celsius + 273.15) salinity"

definition calc_k0 :: "real \<Rightarrow> real \<Rightarrow> real" where
  "calc_k0 temp_kelvin salinity =
     (let temp_k100 = temp_kelvin / 100;
          ln_k0 = - 60.2409
                  + 93.4517 / temp_k100
                  + 23.3585 * ln temp_k100
                  + salinity * (0.023517 - 0.023656 * temp_k100 + 0.0047036 * temp_k100^2)
      in exp ln_k0)"

definition calc_kw :: "real \<Rightarrow> real \<Rightarrow> real" where
  "calc_kw temp_kelvin salinity =
     exp (148.9802
          - 13847.26 / temp_kelvin
          - 23.6521 * ln temp_kelvin
          + (- 79.2447 + 3298.72 / temp_kelvin + 12.0408 * ln temp_kelvin) * sqrt salinity
          - 0.019813 * salinity)"

definition calc_k1 :: "real \<Rightarrow> real \<Rightarrow> real" where
  "calc_k1 temp_kelvin salinity =
     (let pk1 = 8510.63 / temp_kelvin
                - 172.4493
                + 26.32996 * ln temp_kelvin
                - 0.011555 * salinity
                + 0.0001152 * salinity^2
      in 10 powr (- pk1))"

definition calc_k2 :: "real \<Rightarrow> real \<Rightarrow> real" where
  "calc_k2 temp_kelvin salinity =
     (let pk2 = 4226.23 / temp_kelvin
                - 59.4636
                + 9.60817 * ln temp_kelvin
                - 0.01781 * salinity
                + 0.0001122 * salinity^2
      in 10 powr (- pk2))"

definition calc_kb :: "real \<Rightarrow> real \<Rightarrow> real" where
  "calc_kb temp_kelvin salinity =
     (let sqr_sal = sqrt salinity;
          ln_kb_top = - 8966.9
                      - 2890.53 * sqr_sal
                      - 77.942 * salinity
                      + 1.728 * sqr_sal * salinity
                      - 0.0996 * salinity^2;
          ln_kb = ln_kb_top / temp_kelvin
                  + 148.0248
                  + 137.1942 * sqr_sal
                  + 1.62142 * salinity
                  + (- 24.4344 - 25.085 * sqr_sal - 0.2474 * salinity) * ln temp_kelvin
                  + 0.053105 * sqr_sal * temp_kelvin
      in exp ln_kb)"

definition calc_boron :: "real \<Rightarrow> real" where
  "calc_boron salinity = BORON_COEFFICIENT * salinity"

section \<open>data_input.py\<close>

subsection \<open>The historical loader\<close>

text \<open>
  \<open>loop_years\<close>, the helper nested in \<open>load_real_data\<close>; \<open>loop_slope\<close> is its
  local \<open>slope\<close> and \<open>loop_corrected\<close> its reassigned \<open>vec\<close>, both computed in
  double-precision arithmetic. Reading \<open>vec[0]\<close> and \<open>vec[364]\<close> raises IndexError on an
  array shorter than 365; adding the 365-point ramp to an array of another length raises
  numpy's broadcasting ValueError.
\<close>

definition loop_slope :: "real list \<Rightarrow> real list" where
  "loop_slope vec = np_linspace 0 (fsub (vec ! 0) (vec ! 364)) 365"

definition loop_corrected :: "real list \<Rightarrow> real list" where
  "loop_corrected vec = map2 fadd vec (loop_slope vec)"

definition loop_years :: "real list \<Rightarrow> error + real list" where
  "loop_years vec =
     (if length vec < 365 then Inl (Propagated IndexError)
      else if length vec \<noteq> length (loop_slope vec)
      then Inl (Propagated (ValueError ''operands could not be broadcast together''))
      else Inr (np_hstack (loop_corrected vec, loop_corrected vec)))"

text \<open>
  The data frame read from the dataset file is a parameter: a map from a column name to
  the column's values. A missing column is pandas' KeyError.
\<close>

type_synonym dataframe = "string \<rightharpoonup> real list"

definition column :: "dataframe \<Rightarrow> string \<Rightarrow> error + real list" where
  "column df name =
     (case df name of None \<Rightarrow> Inl (Propagated (KeyError name)) | Some c \<Rightarrow> Inr c)"

definition load_real_data :: "dataframe \<Rightarrow> string \<Rightarrow> int \<Rightarrow> error + (real list \<times> real list)" where
  "load_real_data df prefix simulation_length_years =
     on_ok (column df (prefix @ ''temp'')) (\<lambda>temp_col.
     on_ok (loop_years (take 365 temp_col)) (\<lambda>temp_data.
     on_ok (column df (prefix @ ''salt'')) (\<lambda>salt_col.
     on_ok (loop_years (take 365 salt_col)) (\<lambda>salt_data.
     let total_days = simulation_length_years * 365 in
     on_ok (np_tile temp_data (total_days div 365 + 1)) (\<lambda>temp_tiled.
     on_ok (np_tile salt_data (total_days div 365 + 1)) (\<lambda>salt_tiled.
     Inr (slice_to temp_tiled total_days, slice_to salt_tiled total_days)))))))"

subsection \<open>The idealised seasonal generator\<close>

text \<open>
  The two one-year profiles over \<open>days = np.arange(365)\<close>, with the source's means,
  amplitudes and phase shifts, and the generator that tiles them. The source also
  computes \<open>total_days\<close> here and does not use it.
\<close>

definition temperature_one_year :: "real list" where
  "temperature_one_year =
     map (\<lambda>d. 15 + 7.5 * sin (2 * pi * real_of_int (d - 180) / 365)) (np_arange 365)"

definition salinity_one_year :: "real list" where
  "salinity_one_year =
     map (\<lambda>d. 33.5 + 0.5 * sin (2 * pi * real_of_int (d + 31) / 365)) (np_arange 365)"

definition load_seasonal_forcings :: "int \<Rightarrow> error + (real list \<times> real list)" where
  "load_seasonal_forcings simulation_length_years =
     on_ok (np_tile temperature_one_year simulation_length_years) (\<lambda>temp.
     on_ok (np_tile salinity_one_year simulation_length_years) (\<lambda>sal.
     Inr (temp, sal)))"

subsection \<open>Alkalinity regression\<close>

definition calc_talk :: "real \<Rightarrow> string \<Rightarrow> error + real" where
  "calc_talk salt pref =
     (if pref = ''se'' then Inr (48.7 * salt + 608.8)
      else if pref = ''me'' then Inr (46.6 * salt + 670.6)
      else if pref = ''ne'' then Inr (39.1 * salt + 932.7)
      else Inl (Raised (ValueError ''Invalid region code. Use 'se', 'me', or 'ne'.'')))"

subsection \<open>Initial conditions\<close>

text \<open>
  The keyword dictionary handed to the solver holds numbers of two kinds; the solver
  \<open>pyco2.sys\<close> is a parameter.
\<close>

datatype pyval = PyFloat real | PyInt int

text \<open>
  Modelled from the spec: the parameter-type codes of the external carbonate solver,
  which is not part of this repository. The source's comments name the two codes it
  uses: \<open>1\<close> is total alkalinity and \<open>4\<close> is pCO2.
\<close>

definition TYPE_ALKALINITY :: int where
  "TYPE_ALKALINITY = 1"

definition TYPE_PCO2 :: int where
  "TYPE_PCO2 = 4"

definition compute_initial_conditions ::
  "((string \<rightharpoonup> pyval) \<Rightarrow> 'r) \<Rightarrow> real \<Rightarrow> real \<Rightarrow> real \<Rightarrow> real \<Rightarrow> 'r" where
  "compute_initial_conditions sys pCO2 alk temp sal =
     (let kwargs = [''par1'' \<mapsto> PyFloat alk,
                    ''par2'' \<mapsto> PyFloat pCO2,
                    ''par1_type'' \<mapsto> PyInt 1,
                    ''par2_type'' \<mapsto> PyInt 4,
                    ''temperature'' \<mapsto> PyFloat temp,
                    ''salinity'' \<mapsto> PyFloat sal]
      in sys kwargs)"

subsection \<open>Notions used to state the properties\<close>

text \<open>
  The series the historical loader builds from one column of the data frame: the
  corrected year twice, tiled \<open>simulation_length_years + 1\<close> times, cut to the number
  of days.
\<close>

definition real_series :: "real list \<Rightarrow> int \<Rightarrow> real list" where
  "real_series col n =
     take (nat (n * 365)) (concat (replicate (nat (n + 1))
        (loop_corrected (take 365 col) @ loop_corrected (take 365 col))))"

text \<open>An array of doubles.\<close>

definition doubles :: "real list \<Rightarrow> bool" where
  "doubles vec \<longleftrightarrow> (\<forall>x \<in> set vec. is_double x)"

text \<open>
  The bound on the rounding error of \<open>vec[364] + (vec[0] - vec[364])\<close> against
  \<open>vec[0]\<close>: \<open>2^-52 * (|vec[0]| + |vec[0] - vec[364]|)\<close>.
\<close>

definition seam_bound :: "real list \<Rightarrow> real" where
  "seam_bound vec = (\<bar>vec ! 0\<bar> + \<bar>vec ! 0 - vec ! 364\<bar>) / 2 ^ 52"

text \<open>
  The operations of the library, each with its arguments: the functions of constants.py
  and of data_input.py, and the helper nested in \<open>load_real_data\<close>. \<open>run\<close> calls one.
\<close>

datatype operation =
    Op_calculate_k0 real real
  | Op_schmidt real
  | Op_calculate_kappa real real
  | Op_piston_velocity real real real
  | Op_calc_kw real real
  | Op_calc_k0 real real
  | Op_calc_k1 real real
  | Op_calc_k2 real real
  | Op_calc_kb real real
  | Op_calc_boron real
  | Op_loop_years "real list"
  | Op_load_real_data dataframe string int
  | Op_load_seasonal_forcings int
  | Op_calc_talk real string
  | Op_compute_initial_conditions real real real real

datatype 'r outcome = Number real | Array "real list" | Forcings "real list \<times> real list" | Bundle 'r

fun run :: "((string \<rightharpoonup> pyval) \<Rightarrow> 'r) \<Rightarrow> operation \<Rightarrow> error + 'r outcome" where
  "run sys (Op_calculate_k0 t s) = Inr (Number (calculate_k0 t s))"
| "run sys (Op_schmidt t) = Inr (Number (schmidt t))"
| "run sys (Op_calculate_kappa w t) = Inr (Number (calculate_kappa w t))"
| "run sys (Op_piston_velocity w t s) = Inr (Number (piston_velocity w t s))"
| "run sys (Op_calc_kw t s) = Inr (Number (calc_kw t s))"
| "run sys (Op_calc_k0 t s) = Inr (Number (calc_k0 t s))"
| "run sys (Op_calc_k1 t s) = Inr (Number (calc_k1 t s))"
| "run sys (Op_calc_k2 t s) = Inr (Number (calc_k2 t s))"
| "run sys (Op_calc_kb t s) = Inr (Number (calc_kb t s))"
| "run sys (Op_calc_boron s) = Inr (Number (calc_boron s))"
| "run sys (Op_loop_years vec) = on_ok (loop_years vec) (\<lambda>r. Inr (Array r))"
| "run sys (Op_load_real_data df prefix n) =
     on_ok (load_real_data df prefix n) (\<lambda>r. Inr (Forcings r))"
| "run sys (Op_load_seasonal_forcings n) =
     on_ok (load_seasonal_forcings n) (\<lambda>r. Inr (Forcings r))"
| "run sys (Op_calc_talk salt pref) = on_ok (calc_talk salt pref) (\<lambda>r. Inr (Number r))"
| "run sys (Op_compute_initial_conditions pCO2 alk temp sal) =
     Inr (Bundle (compute_initial_conditions sys pCO2 alk temp sal))"

text \<open>Rounding to two decimal places, as a regression test against a literal does.\<close>

definition to_2_decimal_places :: "real \<Rightarrow> real" where
  "to_2_decimal_places x = real_of_int (round (x * 100)) / 100"

section \<open>Properties\<close>

subsection \<open>Rounding\<close>

lemma round_half_even_error: "\<bar>real_of_int (round_half_even y) - y\<bar> \<le> 1 / 2"
  unfolding round_half_even_def Let_def by (auto; linarith)

lemma round_half_even_of_int [simp]: "round_half_even (real_of_int m) = m"
  by (simp add: round_half_even_def)

lemma fl_0 [simp]: "fl 0 = 0"
  by (simp add: fl_def)

lemma pow2_floor_log_le:
  assumes "x \<noteq> 0"
  shows "2 powr real_of_int \<lfloor>log 2 \<bar>x\<bar>\<rfloor> \<le> \<bar>x\<bar>"
proof -
  have "2 powr real_of_int \<lfloor>log 2 \<bar>x\<bar>\<rfloor> \<le> 2 powr log 2 \<bar>x\<bar>"
    by (intro powr_mono) simp_all
  also have "\<dots> = \<bar>x\<bar>"
    using assms by simp
  finally show ?thesis .
qed

lemma fl_error: "\<bar>fl x - x\<bar> \<le> \<bar>x\<bar> / 2 ^ 53"
proof (cases "x = 0")
  case True
  then show ?thesis by simp
next
  case False
  define s where "s = 2 powr real_of_int (ulp_exponent x)"
  have s0: "0 < s"
    by (simp add: s_def)
  have "fl x - x = s * (real_of_int (round_half_even (x / s)) - x / s)"
    using False s0 by (simp add: fl_def s_def [symmetric] field_simps)
  then have "\<bar>fl x - x\<bar> = s * \<bar>real_of_int (round_half_even (x / s)) - x / s\<bar>"
    using s0 by (simp add: abs_mult)
  also have "\<dots> \<le> s * (1 / 2)"
    using s0 round_half_even_error by (intro mult_left_mono) simp_all
  also have "s * (1 / 2) = 2 powr real_of_int \<lfloor>log 2 \<bar>x\<bar>\<rfloor> / 2 ^ 53"
  proof -
    have "s = 2 powr (real_of_int \<lfloor>log 2 \<bar>x\<bar>\<rfloor> - 52)"
      by (simp add: s_def ulp_exponent_def)
    also have "\<dots> = 2 powr real_of_int \<lfloor>log 2 \<bar>x\<bar>\<rfloor> / 2 powr 52"
      by (rule powr_diff)
    finally show ?thesis
      by simp
  qed
  also have "\<dots> \<le> \<bar>x\<bar> / 2 ^ 53"
    using pow2_floor_log_le [OF False] by (intro divide_right_mono) simp_all
  finally show ?thesis .
qed

lemma fl_eval:
  assumes "2 powr real_of_int e \<le> \<bar>x\<bar>" and "\<bar>x\<bar> < 2 powr real_of_int (e + 1)"
  shows "fl x = real_of_int (round_half_even (x / 2 powr real_of_int (e - 52)))
                  * 2 powr real_of_int (e - 52)"
proof -
  have pos: "0 < \<bar>x\<bar>"
    using assms(1) by (smt (verit) powr_gt_zero)
  then have "\<lfloor>log 2 \<bar>x\<bar>\<rfloor> = e"
    using assms by (subst floor_log_eq_powr_iff) simp_all
  then show ?thesis
    using pos by (simp add: fl_def ulp_exponent_def)
qed

lemma fl_eval_scaled:
  assumes "2 ^ 52 \<le> \<bar>x\<bar> * 2 ^ k" and "\<bar>x\<bar> * 2 ^ k < 2 ^ 53"
  shows "fl x = real_of_int (round_half_even (x * 2 ^ k)) / 2 ^ k"
proof -
  define e :: int where "e = 52 - int k"
  have p: "2 powr real_of_int e = 2 ^ 52 / 2 ^ k"
    by (simp add: e_def powr_diff powr_realpow)
  have q: "2 powr real_of_int (e + 1) = 2 ^ 53 / 2 ^ k"
    by (simp add: e_def powr_diff powr_add powr_realpow)
  have s: "2 powr real_of_int (e - 52) = 1 / 2 ^ k"
    by (simp add: e_def powr_minus powr_realpow divide_inverse)
  have "2 powr real_of_int e \<le> \<bar>x\<bar>"
    using assms(1) unfolding p by (simp add: field_simps)
  moreover have "\<bar>x\<bar> < 2 powr real_of_int (e + 1)"
    using assms(2) unfolding q by (simp add: field_simps)
  ultimately have "fl x = real_of_int (round_half_even (x / 2 powr real_of_int (e - 52)))
                  * 2 powr real_of_int (e - 52)"
    by (rule fl_eval)
  then show ?thesis
    unfolding s by simp
qed

lemma is_double_0: "is_double 0"
  by (simp add: is_double_def)

lemma is_double_dyadic:
  assumes "\<bar>m\<bar> < 2 ^ 53"
  shows "is_double (real_of_int m / 2 ^ k)"
proof (cases "m = 0")
  case True
  then show ?thesis
    by (simp add: is_double_0)
next
  case False
  define x where "x = real_of_int m / 2 ^ k"
  define e where "e = ulp_exponent x"
  have x0: "x \<noteq> 0"
    using False by (simp add: x_def)
  have "\<bar>real_of_int m\<bar> < 2 ^ 53"
    using assms by (metis of_int_abs of_int_less_numeral_power_cancel_iff)
  then have "\<bar>x\<bar> < 2 ^ 53 / 2 ^ k"
    by (simp add: x_def divide_strict_right_mono)
  also have "\<dots> = 2 powr (53 - real k)"
    by (simp add: powr_diff powr_realpow)
  finally have "log 2 \<bar>x\<bar> < 53 - real k"
    using x0 by (simp add: log_less_iff)
  then have "\<lfloor>log 2 \<bar>x\<bar>\<rfloor> < 53 - int k"
    by (simp add: floor_less_iff)
  then have "0 \<le> - int k - e"
    by (simp add: e_def ulp_exponent_def)
  then obtain j :: nat where j: "- int k - e = int j"
    using nonneg_int_cases by blast
  then have "e = - int k - int j"
    by linarith
  then have e: "real_of_int e = - real k - real j"
    by simp
  have p: "2 powr real_of_int e = 1 / (2 ^ k * 2 ^ j)"
    by (simp add: e powr_diff powr_minus powr_realpow field_simps)
  have q: "x / 2 powr real_of_int e = real_of_int (m * 2 ^ j)"
    by (simp add: p x_def)
  have "fl x = real_of_int (round_half_even (x / 2 powr real_of_int e)) * 2 powr real_of_int e"
    using x0 by (simp add: fl_def e_def)
  also have "\<dots> = real_of_int (m * 2 ^ j) * 2 powr real_of_int e"
    by (simp only: q round_half_even_of_int)
  also have "\<dots> = x"
    by (simp add: p x_def)
  finally show ?thesis
    by (simp add: is_double_def x_def)
qed

lemma closing_sum_error: "\<bar>fadd b (fsub a b) - a\<bar> \<le> (\<bar>a\<bar> + \<bar>a - b\<bar>) / 2 ^ 52"
proof -
  define d where "d = fl (a - b)"
  define r where "r = fl (b + d)"
  have e1: "\<bar>d - (a - b)\<bar> \<le> \<bar>a - b\<bar> / 2 ^ 53"
    unfolding d_def by (rule fl_error)
  have e2: "\<bar>r - (b + d)\<bar> \<le> \<bar>b + d\<bar> / 2 ^ 53"
    unfolding r_def by (rule fl_error)
  have "\<bar>b + d\<bar> \<le> \<bar>a\<bar> + \<bar>d - (a - b)\<bar>"
    by linarith
  also have "\<dots> \<le> \<bar>a\<bar> + \<bar>a - b\<bar> / 2 ^ 53"
    using e1 by simp
  also have "\<dots> \<le> \<bar>a\<bar> + \<bar>a - b\<bar>"
    by (simp add: field_simps)
  finally have "\<bar>b + d\<bar> / 2 ^ 53 \<le> (\<bar>a\<bar> + \<bar>a - b\<bar>) / 2 ^ 53"
    by (simp add: divide_right_mono)
  with e2 have e3: "\<bar>r - (b + d)\<bar> \<le> (\<bar>a\<bar> + \<bar>a - b\<bar>) / 2 ^ 53"
    by linarith
  have "\<bar>a - b\<bar> / 2 ^ 53 \<le> (\<bar>a\<bar> + \<bar>a - b\<bar>) / 2 ^ 53"
    by (simp add: divide_right_mono)
  with e1 have e4: "\<bar>d - (a - b)\<bar> \<le> (\<bar>a\<bar> + \<bar>a - b\<bar>) / 2 ^ 53"
    by linarith
  have "\<bar>r - a\<bar> \<le> \<bar>r - (b + d)\<bar> + \<bar>d - (a - b)\<bar>"
    by linarith
  also have "\<dots> \<le> (\<bar>a\<bar> + \<bar>a - b\<bar>) / 2 ^ 53 + (\<bar>a\<bar> + \<bar>a - b\<bar>) / 2 ^ 53"
    using e3 e4 by linarith
  also have "\<dots> = (\<bar>a\<bar> + \<bar>a - b\<bar>) / 2 ^ 52"
    by simp
  finally show ?thesis
    by (simp add: r_def d_def fadd_def fsub_def)
qed

lemma closing_sum_exact:
  assumes "is_double a" and "is_double (a - b)"
  shows "fadd b (fsub a b) = a"
  using assms by (simp add: fadd_def fsub_def is_double_def)

lemma doubles_year:
  "is_double a \<Longrightarrow> is_double b \<Longrightarrow> is_double c \<Longrightarrow> doubles (a # replicate 363 b @ [c])"
  by (auto simp: doubles_def)

lemma is_double_small_int: "\<bar>m\<bar> < 2 ^ 53 \<Longrightarrow> is_double (real_of_int m)"
  using is_double_dyadic [of m 0] by simp

subsection \<open>Tiling, slicing and the linear ramp\<close>

lemma on_ok_Inr [simp]: "on_ok (Inr x) f = f x"
  by (simp add: on_ok_def)

lemma on_ok_Inl [simp]: "on_ok (Inl e) f = Inl e"
  by (simp add: on_ok_def)

lemma length_tile: "length (concat (replicate k xs)) = k * length xs"
  by (induction k) simp_all

lemma nth_tile: "i < k * length xs \<Longrightarrow> concat (replicate k xs) ! i = xs ! (i mod length xs)"
proof (induction k arbitrary: i)
  case 0
  then show ?case by simp
next
  case (Suc k)
  show ?case
  proof (cases "i < length xs")
    case True
    then show ?thesis by (simp add: nth_append)
  next
    case False
    then have "i - length xs < k * length xs"
      using Suc.prems by simp
    then have "concat (replicate k xs) ! (i - length xs) = xs ! ((i - length xs) mod length xs)"
      by (rule Suc.IH)
    moreover have "(i - length xs) mod length xs = i mod length xs"
      using False by (simp add: le_mod_geq)
    ultimately show ?thesis
      using False by (simp add: nth_append)
  qed
qed

lemma np_tile_nonneg: "0 \<le> reps \<Longrightarrow> np_tile a reps = Inr (concat (replicate (nat reps) a))"
  by (simp add: np_tile_def)

lemma length_np_linspace: "length (np_linspace a b n) = n"
  by (simp add: np_linspace_def Let_def)

lemma np_linspace_last: "0 < n \<Longrightarrow> np_linspace a b n ! (n - 1) = b"
  by (simp add: np_linspace_def Let_def)

lemma np_linspace_first: "1 < n \<Longrightarrow> np_linspace 0 b n ! 0 = 0"
  by (simp add: np_linspace_def Let_def fadd_def fmul_def fdiv_def)

lemma length_loop_slope: "length (loop_slope vec) = 365"
  by (simp add: loop_slope_def length_np_linspace)

lemma length_loop_corrected: "length vec = 365 \<Longrightarrow> length (loop_corrected vec) = 365"
  by (simp add: loop_corrected_def length_loop_slope)

lemma loop_corrected_nth:
  "length vec = 365 \<Longrightarrow> i < 365 \<Longrightarrow> loop_corrected vec ! i = fadd (vec ! i) (loop_slope vec ! i)"
  by (simp add: loop_corrected_def length_loop_slope)

lemma loop_slope_first: "loop_slope vec ! 0 = 0"
  using np_linspace_first [of 365 "fsub (vec ! 0) (vec ! 364)"] by (simp add: loop_slope_def)

lemma loop_slope_last: "loop_slope vec ! 364 = fsub (vec ! 0) (vec ! 364)"
  using np_linspace_last [of 365 0 "fsub (vec ! 0) (vec ! 364)"] by (simp add: loop_slope_def)

lemma loop_corrected_first:
  "length vec = 365 \<Longrightarrow> is_double (vec ! 0) \<Longrightarrow> loop_corrected vec ! 0 = vec ! 0"
  by (simp add: loop_corrected_nth loop_slope_first fadd_def is_double_def)

lemma loop_corrected_last:
  "length vec = 365 \<Longrightarrow> loop_corrected vec ! 364 = fadd (vec ! 364) (fsub (vec ! 0) (vec ! 364))"
  by (simp add: loop_corrected_nth loop_slope_last)

lemma loop_corrected_seam:
  assumes "length vec = 365" and "is_double (vec ! 0)"
  shows "\<bar>loop_corrected vec ! 364 - loop_corrected vec ! 0\<bar> \<le> seam_bound vec"
  using assms closing_sum_error [of "vec ! 364" "vec ! 0"]
  by (simp add: loop_corrected_first loop_corrected_last seam_bound_def)

lemma loop_years_365:
  "length vec = 365 \<Longrightarrow> loop_years vec = Inr (loop_corrected vec @ loop_corrected vec)"
  by (simp add: loop_years_def length_loop_slope np_hstack_def)

lemma length_temperature_one_year: "length temperature_one_year = 365"
  by (simp add: temperature_one_year_def np_arange_def)

lemma length_salinity_one_year: "length salinity_one_year = 365"
  by (simp add: salinity_one_year_def np_arange_def)

lemma load_seasonal_forcings_nonneg:
  "0 \<le> n \<Longrightarrow> load_seasonal_forcings n =
     Inr (concat (replicate (nat n) temperature_one_year),
          concat (replicate (nat n) salinity_one_year))"
  by (simp add: load_seasonal_forcings_def np_tile_nonneg)

lemma load_real_data_nonneg:
  assumes "0 \<le> n"
    and "df (prefix @ ''temp'') = Some temp_col" and "365 \<le> length temp_col"
    and "df (prefix @ ''salt'') = Some salt_col" and "365 \<le> length salt_col"
  shows "load_real_data df prefix n = Inr (real_series temp_col n, real_series salt_col n)"
proof -
  have t: "loop_years (take 365 temp_col)
      = Inr (loop_corrected (take 365 temp_col) @ loop_corrected (take 365 temp_col))"
    using assms(3) by (intro loop_years_365) simp
  have s: "loop_years (take 365 salt_col)
      = Inr (loop_corrected (take 365 salt_col) @ loop_corrected (take 365 salt_col))"
    using assms(5) by (intro loop_years_365) simp
  have d: "n * 365 div 365 + 1 = n + 1"
    by simp
  show ?thesis
    using assms(1)
    by (simp add: load_real_data_def column_def assms(2,4) t s Let_def d np_tile_nonneg
        slice_to_def real_series_def)
qed

lemma length_real_series:
  assumes "0 \<le> n" and "365 \<le> length col"
  shows "length (real_series col n) = nat (n * 365)"
proof -
  have "length (loop_corrected (take 365 col)) = 365"
    using assms(2) by (intro length_loop_corrected) simp
  then have "length (concat (replicate (nat (n + 1))
        (loop_corrected (take 365 col) @ loop_corrected (take 365 col)))) = nat (n + 1) * 730"
    by (simp add: length_tile)
  moreover have "nat (n * 365) \<le> nat (n + 1) * 730"
    using assms(1) by (simp add: nat_mult_distrib nat_add_distrib)
  ultimately show ?thesis
    by (simp add: real_series_def)
qed

lemma real_series_nth:
  assumes "0 \<le> n" and "365 \<le> length col" and "j < nat (n * 365)"
  shows "real_series col n ! j = loop_corrected (take 365 col) ! (j mod 365)"
proof -
  let ?c = "loop_corrected (take 365 col)"
  have len: "length ?c = 365"
    using assms(2) by (intro length_loop_corrected) simp
  have b: "nat (n * 365) \<le> nat (n + 1) * 730"
    using assms(1) by (simp add: nat_mult_distrib nat_add_distrib)
  have m: "j mod 730 mod 365 = j mod 365"
    by (rule mod_mod_cancel) simp
  have "real_series col n ! j = concat (replicate (nat (n + 1)) (?c @ ?c)) ! j"
    using assms(3) by (simp add: real_series_def)
  also have "\<dots> = (?c @ ?c) ! (j mod 730)"
    using assms(3) b len by (subst nth_tile) simp_all
  also have "\<dots> = ?c ! (j mod 365)"
  proof (cases "j mod 730 < 365")
    case True
    with m show ?thesis
      using len by (simp add: nth_append)
  next
    case False
    then have "j mod 730 - 365 = j mod 730 mod 365"
      by (simp add: le_mod_geq)
    with False m show ?thesis
      using len by (simp add: nth_append)
  qed
  finally show ?thesis .
qed

lemma np_tile_not_raised: "np_tile a reps \<noteq> Inl (Raised e)"
  by (simp add: np_tile_def)

lemma column_not_raised: "column df name \<noteq> Inl (Raised e)"
  by (simp add: column_def split: option.splits)

lemma loop_years_not_raised: "loop_years vec \<noteq> Inl (Raised e)"
  by (simp add: loop_years_def)

lemma on_ok_not_raised:
  "r \<noteq> Inl (Raised e) \<Longrightarrow> (\<And>x. f x \<noteq> Inl (Raised e)) \<Longrightarrow> on_ok r f \<noteq> Inl (Raised e)"
  by (cases r) simp_all

lemma load_seasonal_forcings_not_raised: "load_seasonal_forcings n \<noteq> Inl (Raised e)"
  unfolding load_seasonal_forcings_def
  by (intro on_ok_not_raised np_tile_not_raised) simp

lemma load_real_data_not_raised: "load_real_data df prefix n \<noteq> Inl (Raised e)"
  unfolding load_real_data_def Let_def
  by (intro on_ok_not_raised np_tile_not_raised column_not_raised loop_years_not_raised) simp

subsection \<open>Lengths of the forcing series\<close>

text \<open>
  C1. For every positive number of simulation years, both forcing generators return a
  temperature series and a salinity series of exactly \<open>simulation_length_years * 365\<close>
  values each. For the historical loader the data frame holds the two columns of the
  region, each with at least the 365 rows of one year.
\<close>

theorem forcing_series_lengths:
  assumes "0 < n"
    and "df (prefix @ ''temp'') = Some temp_col" and "365 \<le> length temp_col"
    and "df (prefix @ ''salt'') = Some salt_col" and "365 \<le> length salt_col"
  shows "(\<exists>t s. load_seasonal_forcings n = Inr (t, s)
            \<and> int (length t) = n * 365 \<and> int (length s) = n * 365)
       \<and> (\<exists>t s. load_real_data df prefix n = Inr (t, s)
            \<and> int (length t) = n * 365 \<and> int (length s) = n * 365)"
proof
  have "load_seasonal_forcings n =
     Inr (concat (replicate (nat n) temperature_one_year),
          concat (replicate (nat n) salinity_one_year))"
    using assms(1) by (intro load_seasonal_forcings_nonneg) simp
  moreover have "int (length (concat (replicate (nat n) temperature_one_year))) = n * 365"
    using assms(1) by (simp add: length_tile length_temperature_one_year)
  moreover have "int (length (concat (replicate (nat n) salinity_one_year))) = n * 365"
    using assms(1) by (simp add: length_tile length_salinity_one_year)
  ultimately show "\<exists>t s. load_seasonal_forcings n = Inr (t, s)
            \<and> int (length t) = n * 365 \<and> int (length s) = n * 365"
    by blast
next
  have n0: "0 \<le> n"
    using assms(1) by simp
  have "load_real_data df prefix n = Inr (real_series temp_col n, real_series salt_col n)"
    using n0 assms(2-5) by (rule load_real_data_nonneg)
  moreover have "int (length (real_series temp_col n)) = n * 365"
    using n0 assms(3) by (simp add: length_real_series)
  moreover have "int (length (real_series salt_col n)) = n * 365"
    using n0 assms(5) by (simp add: length_real_series)
  ultimately show "\<exists>t s. load_real_data df prefix n = Inr (t, s)
            \<and> int (length t) = n * 365 \<and> int (length s) = n * 365"
    by blast
qed

theorem forcing_series_lengths_witness:
  "(0::int) < 2
   \<and> [''netemp'' \<mapsto> replicate 365 (10::real), ''nesalt'' \<mapsto> replicate 365 35] (''ne'' @ ''temp'')
       = Some (replicate 365 10)
   \<and> 365 \<le> length (replicate 365 (10::real))
   \<and> [''netemp'' \<mapsto> replicate 365 (10::real), ''nesalt'' \<mapsto> replicate 365 35] (''ne'' @ ''salt'')
       = Some (replicate 365 35)
   \<and> 365 \<le> length (replicate 365 (35::real))
   \<and> (\<exists>t s. load_seasonal_forcings 2 = Inr (t, s)
            \<and> int (length t) = 2 * 365 \<and> int (length s) = 2 * 365)
   \<and> (\<exists>t s. load_real_data [''netemp'' \<mapsto> replicate 365 10, ''nesalt'' \<mapsto> replicate 365 35]
                ''ne'' 2 = Inr (t, s)
            \<and> int (length t) = 2 * 365 \<and> int (length s) = 2 * 365)"
  using forcing_series_lengths [of 2 "[''netemp'' \<mapsto> replicate 365 10, ''nesalt'' \<mapsto> replicate 365 35]"
      "''ne''" "replicate 365 10" "replicate 365 35"]
  by simp

subsection \<open>The loop-year correction\<close>

text \<open>
  C9, as stated: for every 365-point vector, element 364 of what \<open>loop_years\<close> returns
  equals element 0, both being the original \<open>vec[0]\<close>. In double precision this fails
  on the year that starts at \<open>1 + 2^-52\<close>, ends at 9 and is 0 in between: the
  difference \<open>vec[0] - vec[364]\<close> rounds to \<open>-8\<close>, so element 364 is \<open>9 + (-8) = 1\<close>,
  while element 0 is \<open>1 + 2^-52\<close>.
\<close>

theorem loop_years_closes_year_counterexample:
  "length ((1 + 1 / 2 ^ 52) # replicate 363 0 @ [9 :: real]) = 365
   \<and> is_double (1 + 1 / 2 ^ 52) \<and> is_double 0 \<and> is_double 9
   \<and> loop_years ((1 + 1 / 2 ^ 52) # replicate 363 0 @ [9])
       = Inr (loop_corrected ((1 + 1 / 2 ^ 52) # replicate 363 0 @ [9])
            @ loop_corrected ((1 + 1 / 2 ^ 52) # replicate 363 0 @ [9]))
   \<and> (loop_corrected ((1 + 1 / 2 ^ 52) # replicate 363 0 @ [9])
        @ loop_corrected ((1 + 1 / 2 ^ 52) # replicate 363 0 @ [9])) ! 0 = 1 + 1 / 2 ^ 52
   \<and> (loop_corrected ((1 + 1 / 2 ^ 52) # replicate 363 0 @ [9])
        @ loop_corrected ((1 + 1 / 2 ^ 52) # replicate 363 0 @ [9])) ! 364 = 1
   \<and> (loop_corrected ((1 + 1 / 2 ^ 52) # replicate 363 0 @ [9])
        @ loop_corrected ((1 + 1 / 2 ^ 52) # replicate 363 0 @ [9])) ! 364
     \<noteq> (loop_corrected ((1 + 1 / 2 ^ 52) # replicate 363 0 @ [9])
        @ loop_corrected ((1 + 1 / 2 ^ 52) # replicate 363 0 @ [9])) ! 0"
proof -
  let ?v = "(1 + 1 / 2 ^ 52) # replicate 363 0 @ [9 :: real]"
  let ?c = "loop_corrected ?v"
  have len: "length ?v = 365"
    by simp
  have v0: "?v ! 0 = 1 + 1 / 2 ^ 52"
    by simp
  have v364: "?v ! 364 = 9"
    by (simp add: nth_append)
  have d1: "is_double (1 + 1 / 2 ^ 52)"
    using is_double_dyadic [of "2 ^ 52 + 1" 52] by (simp add: field_simps)
  have d9: "is_double 9"
    using is_double_dyadic [of 9 0] by simp
  have sub: "fsub (1 + 1 / 2 ^ 52) 9 = - 8"
    using fl_eval_scaled [of "1 + 1 / 2 ^ 52 - 9" 50]
    by (simp add: fsub_def round_half_even_def)
  have add: "fadd 9 (- 8) = 1"
    using fl_eval_scaled [of "9 + - 8" 52] by (simp add: fadd_def round_half_even_def)
  have clen: "length ?c = 365"
    using len by (rule length_loop_corrected)
  have c0: "?c ! 0 = 1 + 1 / 2 ^ 52"
    using loop_corrected_first [OF len] d1 v0 by simp
  have "?c ! 364 = fadd (?v ! 364) (fsub (?v ! 0) (?v ! 364))"
    using len by (rule loop_corrected_last)
  then have c364: "?c ! 364 = 1"
    by (simp only: v0 v364 sub add)
  have r0: "(?c @ ?c) ! 0 = 1 + 1 / 2 ^ 52"
    using clen c0 by (simp add: nth_append)
  have r364: "(?c @ ?c) ! 364 = 1"
    using clen c364 by (simp add: nth_append)
  have ne: "(?c @ ?c) ! 364 \<noteq> (?c @ ?c) ! 0"
    unfolding r0 r364 by simp
  have "loop_years ?v = Inr (?c @ ?c)"
    using len by (rule loop_years_365)
  with len d1 d9 r0 r364 ne show ?thesis
    using is_double_0 by blast
qed

text \<open>
  C9, amended. For every 365-point vector of doubles, \<open>loop_years\<close> returns 730 values
  whose second half repeats the first half element by element; its element 0 is the
  original \<open>vec[0]\<close> and its element 364 is the rounded sum
  \<open>vec[364] + (vec[0] - vec[364])\<close>, which equals \<open>vec[0]\<close> when \<open>vec[0] - vec[364]\<close> is
  itself a double and otherwise differs from it by at most the rounding error
  \<open>2^-52 * (|vec[0]| + |vec[0] - vec[364]|)\<close>. Consequently, in the series
  \<open>load_real_data\<close> returns, the value of day 364 of every year equals the value of
  day 0 of that year, which is the column's first value, up to that rounding error.
\<close>

theorem loop_years_closes_year:
  assumes "length vec = 365" and "doubles vec" and "0 < n"
    and "df (prefix @ ''temp'') = Some temp_col"
    and "365 \<le> length temp_col" and "doubles temp_col"
    and "df (prefix @ ''salt'') = Some salt_col"
    and "365 \<le> length salt_col" and "doubles salt_col"
  shows "(\<exists>r. loop_years vec = Inr r \<and> length r = 730
            \<and> (\<forall>i<365. r ! (365 + i) = r ! i)
            \<and> r ! 0 = vec ! 0
            \<and> r ! 364 = fadd (vec ! 364) (fsub (vec ! 0) (vec ! 364))
            \<and> (is_double (vec ! 0 - vec ! 364) \<longrightarrow> r ! 364 = r ! 0)
            \<and> \<bar>r ! 364 - r ! 0\<bar> \<le> seam_bound vec)
       \<and> (\<exists>t s. load_real_data df prefix n = Inr (t, s)
            \<and> (\<forall>y<nat n. t ! (365 * y) = temp_col ! 0
                        \<and> \<bar>t ! (365 * y + 364) - t ! (365 * y)\<bar> \<le> seam_bound temp_col
                        \<and> s ! (365 * y) = salt_col ! 0
                        \<and> \<bar>s ! (365 * y + 364) - s ! (365 * y)\<bar> \<le> seam_bound salt_col))"
proof
  let ?c = "loop_corrected vec"
  have "vec ! 0 \<in> set vec"
    using assms(1) by (intro nth_mem) simp
  then have d0: "is_double (vec ! 0)"
    using assms(2) by (simp add: doubles_def)
  have len: "length ?c = 365"
    using assms(1) by (rule length_loop_corrected)
  have c0: "?c ! 0 = vec ! 0"
    using assms(1) d0 by (rule loop_corrected_first)
  have c364: "?c ! 364 = fadd (vec ! 364) (fsub (vec ! 0) (vec ! 364))"
    using assms(1) by (rule loop_corrected_last)
  have "loop_years vec = Inr (?c @ ?c)"
    using assms(1) by (rule loop_years_365)
  moreover have "length (?c @ ?c) = 730"
    using len by simp
  moreover have "\<forall>i<365. (?c @ ?c) ! (365 + i) = (?c @ ?c) ! i"
    using len by (simp add: nth_append)
  moreover have r0: "(?c @ ?c) ! 0 = vec ! 0"
    using len c0 by (simp add: nth_append)
  moreover have r364: "(?c @ ?c) ! 364 = fadd (vec ! 364) (fsub (vec ! 0) (vec ! 364))"
    using len c364 by (simp add: nth_append)
  moreover have "is_double (vec ! 0 - vec ! 364) \<longrightarrow> (?c @ ?c) ! 364 = (?c @ ?c) ! 0"
    unfolding r0 r364 using d0 by (simp add: closing_sum_exact)
  moreover have "\<bar>(?c @ ?c) ! 364 - (?c @ ?c) ! 0\<bar> \<le> seam_bound vec"
    using loop_corrected_seam [OF assms(1) d0] len by (simp add: nth_append)
  ultimately show "\<exists>r. loop_years vec = Inr r \<and> length r = 730
            \<and> (\<forall>i<365. r ! (365 + i) = r ! i)
            \<and> r ! 0 = vec ! 0
            \<and> r ! 364 = fadd (vec ! 364) (fsub (vec ! 0) (vec ! 364))
            \<and> (is_double (vec ! 0 - vec ! 364) \<longrightarrow> r ! 364 = r ! 0)
            \<and> \<bar>r ! 364 - r ! 0\<bar> \<le> seam_bound vec"
    by blast
next
  have n0: "0 \<le> n"
    using assms(3) by simp
  have day: "real_series col n ! (365 * y) = col ! 0
        \<and> \<bar>real_series col n ! (365 * y + 364) - real_series col n ! (365 * y)\<bar> \<le> seam_bound col"
    if "365 \<le> length col" and "doubles col" and "y < nat n" for col y
  proof -
    have l: "length (take 365 col) = 365"
      using that(1) by simp
    have "0 < length col"
      using that(1) by linarith
    then have "col ! 0 \<in> set col"
      by (rule nth_mem)
    then have d: "is_double (take 365 col ! 0)"
      using that(2) by (simp add: doubles_def)
    have b: "seam_bound (take 365 col) = seam_bound col"
      by (simp add: seam_bound_def)
    have "365 * y + 364 < nat (n * 365)"
      using that(3) n0 by (simp add: nat_mult_distrib)
    then have "real_series col n ! (365 * y + 364) = loop_corrected (take 365 col) ! 364"
      using n0 that(1) by (simp add: real_series_nth)
    moreover have "365 * y < nat (n * 365)"
      using that(3) n0 by (simp add: nat_mult_distrib)
    then have "real_series col n ! (365 * y) = loop_corrected (take 365 col) ! 0"
      using n0 that(1) by (simp add: real_series_nth)
    moreover have "loop_corrected (take 365 col) ! 0 = col ! 0"
      using loop_corrected_first [OF l d] by simp
    moreover have "\<bar>loop_corrected (take 365 col) ! 364 - loop_corrected (take 365 col) ! 0\<bar>
        \<le> seam_bound col"
      using loop_corrected_seam [OF l d] b by simp
    ultimately show ?thesis
      by simp
  qed
  have "load_real_data df prefix n = Inr (real_series temp_col n, real_series salt_col n)"
    using n0 assms(4,5,7,8) by (rule load_real_data_nonneg)
  moreover have "\<forall>y<nat n. real_series temp_col n ! (365 * y) = temp_col ! 0
        \<and> \<bar>real_series temp_col n ! (365 * y + 364) - real_series temp_col n ! (365 * y)\<bar>
            \<le> seam_bound temp_col
        \<and> real_series salt_col n ! (365 * y) = salt_col ! 0
        \<and> \<bar>real_series salt_col n ! (365 * y + 364) - real_series salt_col n ! (365 * y)\<bar>
            \<le> seam_bound salt_col"
    using day [OF assms(5,6)] day [OF assms(8,9)] by blast
  ultimately show "\<exists>t s. load_real_data df prefix n = Inr (t, s)
            \<and> (\<forall>y<nat n. t ! (365 * y) = temp_col ! 0
                        \<and> \<bar>t ! (365 * y + 364) - t ! (365 * y)\<bar> \<le> seam_bound temp_col
                        \<and> s ! (365 * y) = salt_col ! 0
                        \<and> \<bar>s ! (365 * y + 364) - s ! (365 * y)\<bar> \<le> seam_bound salt_col)"
    by blast
qed

theorem loop_years_closes_year_witness:
  "length ((1 + 1 / 2 ^ 52) # replicate 363 0 @ [9 :: real]) = 365
   \<and> doubles ((1 + 1 / 2 ^ 52) # replicate 363 0 @ [9])
   \<and> (0::int) < 2
   \<and> [''netemp'' \<mapsto> 10 # replicate 363 12 @ [18 :: real],
       ''nesalt'' \<mapsto> 35 # replicate 363 34 @ [33]] (''ne'' @ ''temp'')
       = Some (10 # replicate 363 12 @ [18])
   \<and> 365 \<le> length (10 # replicate 363 12 @ [18 :: real])
   \<and> doubles (10 # replicate 363 12 @ [18])
   \<and> [''netemp'' \<mapsto> 10 # replicate 363 12 @ [18 :: real],
       ''nesalt'' \<mapsto> 35 # replicate 363 34 @ [33]] (''ne'' @ ''salt'')
       = Some (35 # replicate 363 34 @ [33])
   \<and> 365 \<le> length (35 # replicate 363 34 @ [33 :: real])
   \<and> doubles (35 # replicate 363 34 @ [33])
   \<and> (\<exists>r. loop_years ((1 + 1 / 2 ^ 52) # replicate 363 0 @ [9]) = Inr r \<and> length r = 730
            \<and> r ! 0 = 1 + 1 / 2 ^ 52
            \<and> \<bar>r ! 364 - r ! 0\<bar> \<le> seam_bound ((1 + 1 / 2 ^ 52) # replicate 363 0 @ [9]))
   \<and> (\<exists>t s. load_real_data [''netemp'' \<mapsto> 10 # replicate 363 12 @ [18],
                               ''nesalt'' \<mapsto> 35 # replicate 363 34 @ [33]] ''ne'' 2 = Inr (t, s)
            \<and> t ! 0 = 10 \<and> t ! 365 = 10
            \<and> \<bar>t ! 364 - t ! 0\<bar> \<le> seam_bound (10 # replicate 363 12 @ [18])
            \<and> s ! 0 = 35 \<and> s ! 365 = 35
            \<and> \<bar>s ! 729 - s ! 365\<bar> \<le> seam_bound (35 # replicate 363 34 @ [33]))"
proof -
  let ?v = "(1 + 1 / 2 ^ 52) # replicate 363 0 @ [9 :: real]"
  let ?t = "10 # replicate 363 12 @ [18 :: real]"
  let ?s = "35 # replicate 363 34 @ [33 :: real]"
  let ?df = "[''netemp'' \<mapsto> ?t, ''nesalt'' \<mapsto> ?s]"
  have d1: "is_double (1 + 1 / 2 ^ 52)"
    using is_double_dyadic [of "2 ^ 52 + 1" 52] by (simp add: field_simps)
  have di: "is_double 0" "is_double 9" "is_double 10" "is_double 12" "is_double 18"
    "is_double 35" "is_double 34" "is_double 33"
    using is_double_small_int [of 0] is_double_small_int [of 9] is_double_small_int [of 10]
      is_double_small_int [of 12] is_double_small_int [of 18] is_double_small_int [of 35]
      is_double_small_int [of 34] is_double_small_int [of 33]
    by simp_all
  have h1: "length ?v = 365"
    by simp
  have h2: "doubles ?v"
    using d1 di by (intro doubles_year)
  have h3: "(0::int) < 2"
    by simp
  have h4: "?df (''ne'' @ ''temp'') = Some ?t"
    by simp
  have h5: "365 \<le> length ?t"
    by simp
  have h6: "doubles ?t"
    using di by (intro doubles_year)
  have h7: "?df (''ne'' @ ''salt'') = Some ?s"
    by simp
  have h8: "365 \<le> length ?s"
    by simp
  have h9: "doubles ?s"
    using di by (intro doubles_year)
  note c = loop_years_closes_year [OF h1 h2 h3 h4 h5 h6 h7 h8 h9]
  obtain r where r: "loop_years ?v = Inr r" "length r = 730" "r ! 0 = ?v ! 0"
    "\<bar>r ! 364 - r ! 0\<bar> \<le> seam_bound ?v"
    using c [THEN conjunct1] by blast
  have c1: "\<exists>r. loop_years ?v = Inr r \<and> length r = 730 \<and> r ! 0 = 1 + 1 / 2 ^ 52
      \<and> \<bar>r ! 364 - r ! 0\<bar> \<le> seam_bound ?v"
    using r by auto
  obtain t s where ts: "load_real_data ?df ''ne'' 2 = Inr (t, s)"
    and y: "\<forall>y<nat 2. t ! (365 * y) = ?t ! 0
                        \<and> \<bar>t ! (365 * y + 364) - t ! (365 * y)\<bar> \<le> seam_bound ?t
                        \<and> s ! (365 * y) = ?s ! 0
                        \<and> \<bar>s ! (365 * y + 364) - s ! (365 * y)\<bar> \<le> seam_bound ?s"
    using c [THEN conjunct2] by blast
  have "t ! (365 * 0) = ?t ! 0
        \<and> \<bar>t ! (365 * 0 + 364) - t ! (365 * 0)\<bar> \<le> seam_bound ?t
        \<and> s ! (365 * 0) = ?s ! 0
        \<and> \<bar>s ! (365 * 0 + 364) - s ! (365 * 0)\<bar> \<le> seam_bound ?s"
    by (rule y [rule_format]) simp
  then have y0: "t ! 0 = 10 \<and> \<bar>t ! 364 - t ! 0\<bar> \<le> seam_bound ?t \<and> s ! 0 = 35"
    by (elim conjE) simp
  have "t ! (365 * 1) = ?t ! 0
        \<and> \<bar>t ! (365 * 1 + 364) - t ! (365 * 1)\<bar> \<le> seam_bound ?t
        \<and> s ! (365 * 1) = ?s ! 0
        \<and> \<bar>s ! (365 * 1 + 364) - s ! (365 * 1)\<bar> \<le> seam_bound ?s"
    by (rule y [rule_format]) simp
  then have y1: "t ! 365 = 10 \<and> s ! 365 = 35 \<and> \<bar>s ! 729 - s ! 365\<bar> \<le> seam_bound ?s"
    by (elim conjE) simp
  have c2: "\<exists>t s. load_real_data ?df ''ne'' 2 = Inr (t, s)
            \<and> t ! 0 = 10 \<and> t ! 365 = 10
            \<and> \<bar>t ! 364 - t ! 0\<bar> \<le> seam_bound ?t
            \<and> s ! 0 = 35 \<and> s ! 365 = 35
            \<and> \<bar>s ! 729 - s ! 365\<bar> \<le> seam_bound ?s"
    using ts y0 y1 by blast
  show ?thesis
    by (intro conjI h1 h2 h3 h4 h5 h6 h7 h8 h9 c1 c2)
qed

text \<open>
  C5, as stated: after the correction, \<open>corrected_vec[0]\<close> equals
  \<open>corrected_vec[364] + slope[364]\<close>. This fails on the year that starts at 1 and is 0
  on every other day: the corrected year starts and ends at 1 and \<open>slope[364]\<close> is 1, so
  the sum is 2, whether it is rounded or not.
\<close>

theorem loop_year_step_counterexample:
  "length (1 # replicate 364 (0::real)) = 365
   \<and> is_double 1 \<and> is_double 0
   \<and> loop_corrected (1 # replicate 364 0) ! 0 = 1
   \<and> loop_corrected (1 # replicate 364 0) ! 364 = 1
   \<and> loop_slope (1 # replicate 364 0) ! 364 = 1
   \<and> loop_corrected (1 # replicate 364 0) ! 0
       \<noteq> loop_corrected (1 # replicate 364 0) ! 364 + loop_slope (1 # replicate 364 0) ! 364
   \<and> loop_corrected (1 # replicate 364 0) ! 0
       \<noteq> fadd (loop_corrected (1 # replicate 364 0) ! 364) (loop_slope (1 # replicate 364 0) ! 364)"
proof -
  let ?v = "1 # replicate 364 (0::real)"
  have len: "length ?v = 365"
    by simp
  have d1: "is_double 1"
    using is_double_small_int [of 1] by simp
  have f1: "fl 1 = 1"
    using d1 by (simp add: is_double_def)
  have f2: "fl 2 = 2"
    using is_double_small_int [of 2] by (simp add: is_double_def)
  have c0: "loop_corrected ?v ! 0 = 1"
    using loop_corrected_first [OF len] d1 by simp
  have s364: "loop_slope ?v ! 364 = 1"
    by (simp add: loop_slope_last fsub_def f1)
  have c364: "loop_corrected ?v ! 364 = 1"
    using loop_corrected_last [OF len] by (simp add: fsub_def fadd_def f1)
  have n1: "loop_corrected ?v ! 0 \<noteq> loop_corrected ?v ! 364 + loop_slope ?v ! 364"
    unfolding c0 c364 s364 by simp
  have n2: "loop_corrected ?v ! 0 \<noteq> fadd (loop_corrected ?v ! 364) (loop_slope ?v ! 364)"
    unfolding c0 c364 s364 by (simp add: fadd_def f2)
  show ?thesis
    by (intro conjI len d1 is_double_0 c0 c364 s364 n1 n2)
qed

text \<open>
  C5, amended. For every 365-point vector of doubles, after the correction
  \<open>corrected_vec[364]\<close> is the rounded sum \<open>vec[364] + slope[364]\<close>, with \<open>slope[364]\<close>
  the rounded difference \<open>vec[0] - vec[364]\<close>, and it equals \<open>corrected_vec[0]\<close>, which
  is \<open>vec[0]\<close>, up to the rounding error \<open>2^-52 * (|vec[0]| + |vec[0] - vec[364]|)\<close>.
  So the concatenation of two corrected years has, across the year boundary from element
  364 to element 365, a step of at most that rounding error, and no step larger than any
  per-day increment of the series that is not itself below that error.
\<close>

theorem loop_year_step:
  assumes "length vec = 365" and "doubles vec"
  shows "loop_slope vec ! 364 = fsub (vec ! 0) (vec ! 364)
       \<and> loop_corrected vec ! 364 = fadd (vec ! 364) (loop_slope vec ! 364)
       \<and> loop_corrected vec ! 0 = vec ! 0
       \<and> \<bar>loop_corrected vec ! 364 - loop_corrected vec ! 0\<bar> \<le> seam_bound vec
       \<and> (\<exists>r. loop_years vec = Inr r
            \<and> \<bar>r ! 365 - r ! 364\<bar> \<le> seam_bound vec
            \<and> (\<forall>i<364. seam_bound vec \<le> \<bar>r ! (i + 1) - r ! i\<bar>
                   \<longrightarrow> \<bar>r ! 365 - r ! 364\<bar> \<le> \<bar>r ! (i + 1) - r ! i\<bar>))"
proof -
  let ?c = "loop_corrected vec"
  have "0 < length vec"
    using assms(1) by simp
  then have "vec ! 0 \<in> set vec"
    by (rule nth_mem)
  then have d0: "is_double (vec ! 0)"
    using assms(2) by (simp add: doubles_def)
  have len: "length ?c = 365"
    using assms(1) by (rule length_loop_corrected)
  have a: "loop_slope vec ! 364 = fsub (vec ! 0) (vec ! 364)"
    by (rule loop_slope_last)
  have b: "?c ! 364 = fadd (vec ! 364) (loop_slope vec ! 364)"
    using assms(1) by (simp add: loop_corrected_nth)
  have c: "?c ! 0 = vec ! 0"
    using assms(1) d0 by (rule loop_corrected_first)
  have d: "\<bar>?c ! 364 - ?c ! 0\<bar> \<le> seam_bound vec"
    using assms(1) d0 by (rule loop_corrected_seam)
  have "loop_years vec = Inr (?c @ ?c)"
    using assms(1) by (rule loop_years_365)
  moreover have s: "\<bar>(?c @ ?c) ! 365 - (?c @ ?c) ! 364\<bar> \<le> seam_bound vec"
    using len d by (simp add: nth_append abs_minus_commute)
  moreover have "\<forall>i<364. seam_bound vec \<le> \<bar>(?c @ ?c) ! (i + 1) - (?c @ ?c) ! i\<bar>
                   \<longrightarrow> \<bar>(?c @ ?c) ! 365 - (?c @ ?c) ! 364\<bar> \<le> \<bar>(?c @ ?c) ! (i + 1) - (?c @ ?c) ! i\<bar>"
    using s by auto
  ultimately have "\<exists>r. loop_years vec = Inr r
            \<and> \<bar>r ! 365 - r ! 364\<bar> \<le> seam_bound vec
            \<and> (\<forall>i<364. seam_bound vec \<le> \<bar>r ! (i + 1) - r ! i\<bar>
                   \<longrightarrow> \<bar>r ! 365 - r ! 364\<bar> \<le> \<bar>r ! (i + 1) - r ! i\<bar>)"
    by blast
  with a b c d show ?thesis
    by blast
qed

theorem loop_year_step_witness:
  "length ((1 + 1 / 2 ^ 52) # replicate 363 0 @ [9 :: real]) = 365
   \<and> doubles ((1 + 1 / 2 ^ 52) # replicate 363 0 @ [9])
   \<and> loop_slope ((1 + 1 / 2 ^ 52) # replicate 363 0 @ [9]) ! 364 = - 8
   \<and> loop_corrected ((1 + 1 / 2 ^ 52) # replicate 363 0 @ [9]) ! 364 = 1
   \<and> loop_corrected ((1 + 1 / 2 ^ 52) # replicate 363 0 @ [9]) ! 0 = 1 + 1 / 2 ^ 52
   \<and> \<bar>loop_corrected ((1 + 1 / 2 ^ 52) # replicate 363 0 @ [9]) ! 364
        - loop_corrected ((1 + 1 / 2 ^ 52) # replicate 363 0 @ [9]) ! 0\<bar>
       \<le> seam_bound ((1 + 1 / 2 ^ 52) # replicate 363 0 @ [9])
   \<and> (\<exists>r. loop_years ((1 + 1 / 2 ^ 52) # replicate 363 0 @ [9]) = Inr r
          \<and> \<bar>r ! 365 - r ! 364\<bar> \<le> seam_bound ((1 + 1 / 2 ^ 52) # replicate 363 0 @ [9]))"
proof -
  let ?v = "(1 + 1 / 2 ^ 52) # replicate 363 0 @ [9 :: real]"
  have d1: "is_double (1 + 1 / 2 ^ 52)"
    using is_double_dyadic [of "2 ^ 52 + 1" 52] by (simp add: field_simps)
  have d9: "is_double 9"
    using is_double_small_int [of 9] by simp
  have h1: "length ?v = 365"
    by simp
  have h2: "doubles ?v"
    using d1 is_double_0 d9 by (intro doubles_year)
  have v0: "?v ! 0 = 1 + 1 / 2 ^ 52"
    by simp
  have v364: "?v ! 364 = 9"
    by (simp add: nth_append)
  have sub: "fsub (1 + 1 / 2 ^ 52) 9 = - 8"
    using fl_eval_scaled [of "1 + 1 / 2 ^ 52 - 9" 50]
    by (simp add: fsub_def round_half_even_def)
  have add: "fadd 9 (- 8) = 1"
    using fl_eval_scaled [of "9 + - 8" 52] by (simp add: fadd_def round_half_even_def)
  note c = loop_year_step [OF h1 h2]
  have c1: "loop_slope ?v ! 364 = - 8"
    using c [THEN conjunct1] by (simp only: v0 v364 sub)
  have c2: "loop_corrected ?v ! 364 = 1"
    using c [THEN conjunct2, THEN conjunct1] by (simp only: c1 v364 add)
  have c3: "loop_corrected ?v ! 0 = 1 + 1 / 2 ^ 52"
    using c [THEN conjunct2, THEN conjunct2, THEN conjunct1] by (simp only: v0)
  have c4: "\<bar>loop_corrected ?v ! 364 - loop_corrected ?v ! 0\<bar> \<le> seam_bound ?v"
    using c by blast
  have c5: "\<exists>r. loop_years ?v = Inr r \<and> \<bar>r ! 365 - r ! 364\<bar> \<le> seam_bound ?v"
    using c by blast
  show ?thesis
    by (intro conjI h1 h2 c1 c2 c3 c4 c5)
qed

subsection \<open>Extrema of the seasonal cycle\<close>

text \<open>
  The sine of the day angle \<open>2 * pi * x / 365\<close> increases on a half year around 0, is
  mirrored at a quarter year, and repeats after a year.
\<close>

lemma year_angle_mono:
  fixes x y :: real
  assumes "- 91.25 \<le> x" and "x < y" and "y \<le> 91.25"
  shows "sin (2 * pi * x / 365) < sin (2 * pi * y / 365)"
proof (rule sin_monotone_2pi)
  have "- (pi / 2) = pi * (2 * (- 91.25) / 365)"
    by simp
  also have "\<dots> \<le> pi * (2 * x / 365)"
    using assms(1) by (intro mult_left_mono) simp_all
  finally show "- (pi / 2) \<le> 2 * pi * x / 365"
    by (simp add: mult.commute mult.left_commute)
  have "pi * (2 * x / 365) < pi * (2 * y / 365)"
    using assms(2) by (intro mult_strict_left_mono) simp_all
  then show "2 * pi * x / 365 < 2 * pi * y / 365"
    by (simp add: mult.commute mult.left_commute)
  have "pi * (2 * y / 365) \<le> pi * (2 * 91.25 / 365)"
    using assms(3) by (intro mult_left_mono) simp_all
  then show "2 * pi * y / 365 \<le> pi / 2"
    by (simp add: mult.commute mult.left_commute)
qed

lemma year_angle_reflect:
  fixes x :: real
  shows "sin (2 * pi * (182.5 - x) / 365) = sin (2 * pi * x / 365)"
proof -
  have "2 * pi * (182.5 - x) / 365 = pi - 2 * pi * x / 365"
    by (simp add: field_simps)
  then have "sin (2 * pi * (182.5 - x) / 365) = sin (pi - 2 * pi * x / 365)"
    by (rule arg_cong)
  also have "\<dots> = sin (2 * pi * x / 365)"
    by (rule sin_pi_minus)
  finally show ?thesis .
qed

lemma year_angle_period:
  fixes x :: real
  shows "sin (2 * pi * (x + 365) / 365) = sin (2 * pi * x / 365)"
proof -
  have "2 * pi * (x + 365) / 365 = 2 * pi * x / 365 + 2 * pi"
    by (simp add: field_simps)
  then have "sin (2 * pi * (x + 365) / 365) = sin (2 * pi * x / 365 + 2 * pi)"
    by (rule arg_cong)
  also have "\<dots> = sin (2 * pi * x / 365)"
    by (rule sin_periodic)
  finally show ?thesis .
qed

lemma year_sin_below_peak:
  fixes k :: int
  assumes "- 180 \<le> k" and "k \<le> 184" and "k \<noteq> 91"
  shows "sin (2 * pi * real_of_int k / 365) < sin (2 * pi * real_of_int 91 / 365)"
proof -
  consider "- 91 \<le> k \<and> k \<le> 90" | "92 \<le> k" | "k \<le> - 92"
    using assms(3) by linarith
  then show ?thesis
  proof cases
    case 1
    then show ?thesis
      by (intro year_angle_mono) simp_all
  next
    case 2
    have "sin (2 * pi * real_of_int k / 365) = sin (2 * pi * (182.5 - real_of_int k) / 365)"
      by (rule year_angle_reflect [symmetric])
    also have "\<dots> < sin (2 * pi * real_of_int 91 / 365)"
      using 2 assms(2) by (intro year_angle_mono) simp_all
    finally show ?thesis .
  next
    case 3
    have "sin (2 * pi * real_of_int k / 365) = sin (2 * pi * (real_of_int k + 365) / 365)"
      by (rule year_angle_period [symmetric])
    also have "\<dots> = sin (2 * pi * (182.5 - (real_of_int k + 365)) / 365)"
      by (rule year_angle_reflect [symmetric])
    also have "\<dots> < sin (2 * pi * real_of_int 91 / 365)"
      using 3 assms(1) by (intro year_angle_mono) simp_all
    finally show ?thesis .
  qed
qed

lemma year_sin_above_trough:
  fixes j :: int
  assumes "31 \<le> j" and "j \<le> 395" and "j \<noteq> 274"
  shows "sin (2 * pi * real_of_int 274 / 365) < sin (2 * pi * real_of_int j / 365)"
proof -
  have low: "sin (2 * pi * real_of_int 274 / 365) = sin (2 * pi * (- 91) / 365)"
    using year_angle_period [of "- 91"] by simp
  consider "j \<le> 91" | "92 \<le> j \<and> j \<le> 273" | "275 \<le> j"
    using assms(3) by linarith
  then show ?thesis
  proof cases
    case 1
    have "sin (2 * pi * (- 91) / 365) < sin (2 * pi * real_of_int j / 365)"
      using 1 assms(1) by (intro year_angle_mono) simp_all
    with low show ?thesis
      by simp
  next
    case 2
    have "sin (2 * pi * (- 91) / 365) < sin (2 * pi * (182.5 - real_of_int j) / 365)"
      using 2 by (intro year_angle_mono) simp_all
    also have "\<dots> = sin (2 * pi * real_of_int j / 365)"
      by (rule year_angle_reflect)
    finally show ?thesis
      using low by simp
  next
    case 3
    have "sin (2 * pi * (- 91) / 365) < sin (2 * pi * (real_of_int j - 365) / 365)"
      using 3 assms(2) by (intro year_angle_mono) simp_all
    also have "\<dots> = sin (2 * pi * (real_of_int j - 365 + 365) / 365)"
      by (rule year_angle_period [symmetric])
    finally show ?thesis
      using low by simp
  qed
qed

lemma temperature_one_year_nth:
  "d < 365 \<Longrightarrow> temperature_one_year ! d
     = 15 + 7.5 * sin (2 * pi * real_of_int (int d - 180) / 365)"
  by (simp add: temperature_one_year_def np_arange_def)

lemma salinity_one_year_nth:
  "d < 365 \<Longrightarrow> salinity_one_year ! d
     = 33.5 + 0.5 * sin (2 * pi * real_of_int (int d + 31) / 365)"
  by (simp add: salinity_one_year_def np_arange_def)

lemma temperature_peak:
  assumes "d < 365" and "d \<noteq> 271"
  shows "temperature_one_year ! d < temperature_one_year ! 271"
proof -
  have "sin (2 * pi * real_of_int (int d - 180) / 365) < sin (2 * pi * real_of_int 91 / 365)"
    using assms by (intro year_sin_below_peak) simp_all
  then show ?thesis
    using assms(1) by (simp add: temperature_one_year_nth)
qed

lemma salinity_trough:
  assumes "d < 365" and "d \<noteq> 243"
  shows "salinity_one_year ! 243 < salinity_one_year ! d"
proof -
  have "sin (2 * pi * real_of_int 274 / 365) < sin (2 * pi * real_of_int (int d + 31) / 365)"
    using assms by (intro year_sin_above_trough) simp_all
  then show ?thesis
    using assms(1) by (simp add: salinity_one_year_nth)
qed

lemma tile_year_nth:
  assumes "length xs = 365" and "y < k" and "d < 365"
  shows "concat (replicate k xs) ! (365 * y + d) = xs ! d"
proof -
  have "365 * (y + 1) \<le> 365 * k"
    using assms(2) by (intro mult_le_mono2) simp
  then have "365 * y + d < 365 * k"
    using assms(3) by simp
  then have "concat (replicate k xs) ! (365 * y + d) = xs ! ((365 * y + d) mod 365)"
    using assms(1) by (subst nth_tile) (simp_all add: mult.commute)
  then show ?thesis
    using assms(3) by simp
qed


lemma seasonal_temperature_nth:
  "y < 2 \<Longrightarrow> d < 365 \<Longrightarrow>
     concat (replicate 2 temperature_one_year) ! (365 * y + d) = temperature_one_year ! d"
  by (rule tile_year_nth) (simp_all add: length_temperature_one_year)

lemma seasonal_salinity_nth:
  "y < 2 \<Longrightarrow> d < 365 \<Longrightarrow>
     concat (replicate 2 salinity_one_year) ! (365 * y + d) = salinity_one_year ! d"
  by (rule tile_year_nth) (simp_all add: length_salinity_one_year)

lemma load_seasonal_forcings_2:
  "load_seasonal_forcings 2 =
     Inr (concat (replicate 2 temperature_one_year), concat (replicate 2 salinity_one_year))"
  using load_seasonal_forcings_nonneg [of 2] by simp

text \<open>
  In the series returned for two simulation years, the temperatures of days 179, 180 and
  181 are all below that of day 271, and the salinity of day 334 is above that of day
  243.
\<close>

lemma seasonal_days_180_and_334:
  "load_seasonal_forcings 2 =
     Inr (concat (replicate 2 temperature_one_year), concat (replicate 2 salinity_one_year))
   \<and> concat (replicate 2 temperature_one_year) ! 179
       < concat (replicate 2 temperature_one_year) ! 271
   \<and> concat (replicate 2 temperature_one_year) ! 180
       < concat (replicate 2 temperature_one_year) ! 271
   \<and> concat (replicate 2 temperature_one_year) ! 181
       < concat (replicate 2 temperature_one_year) ! 271
   \<and> concat (replicate 2 salinity_one_year) ! 243
       < concat (replicate 2 salinity_one_year) ! 334"
proof -
  have t: "concat (replicate 2 temperature_one_year) ! d = temperature_one_year ! d"
    if "d < 365" for d
    using seasonal_temperature_nth [of 0 d] that by simp
  have s: "concat (replicate 2 salinity_one_year) ! d = salinity_one_year ! d"
    if "d < 365" for d
    using seasonal_salinity_nth [of 0 d] that by simp
  have "temperature_one_year ! 179 < temperature_one_year ! 271"
    by (rule temperature_peak) simp_all
  moreover have "temperature_one_year ! 180 < temperature_one_year ! 271"
    by (rule temperature_peak) simp_all
  moreover have "temperature_one_year ! 181 < temperature_one_year ! 271"
    by (rule temperature_peak) simp_all
  moreover have "salinity_one_year ! 243 < salinity_one_year ! 334"
    by (rule salinity_trough) simp_all
  ultimately show ?thesis
    by (simp add: t s load_seasonal_forcings_2)
qed



subsection \<open>Alkalinity regression\<close>

text \<open>
  A call of an operation of the library ends in an exception raised by the library
  itself only when the operation is \<open>calc_talk\<close>.
\<close>

lemma on_ok_Inr_not_raised:
  "r \<noteq> Inl (Raised e) \<Longrightarrow> on_ok r (\<lambda>x. Inr (g x)) \<noteq> Inl (Raised e)"
  by (cases r) simp_all

lemma calc_talk_raised:
  assumes "calc_talk salt pref = Inl (Raised e)"
  shows "pref \<notin> {''se'', ''me'', ''ne''}
       \<and> e = ValueError ''Invalid region code. Use 'se', 'me', or 'ne'.''"
proof -
  have "pref \<noteq> ''se''" and "pref \<noteq> ''me''" and "pref \<noteq> ''ne''"
    using assms by (auto simp: calc_talk_def split: if_splits)
  then show ?thesis
    using assms by (simp add: calc_talk_def)
qed

lemma run_raised:
  assumes "run sys oper = Inl (Raised e)"
  shows "\<exists>salt pref. oper = Op_calc_talk salt pref \<and> pref \<notin> {''se'', ''me'', ''ne''}
           \<and> e = ValueError ''Invalid region code. Use 'se', 'me', or 'ne'.''"
proof (cases oper)
  case (Op_loop_years vec)
  have "run sys (Op_loop_years vec) \<noteq> Inl (Raised e)"
    unfolding run.simps by (rule on_ok_Inr_not_raised) (rule loop_years_not_raised)
  with Op_loop_years show ?thesis
    using assms by simp
next
  case (Op_load_real_data df prefix n)
  have "run sys (Op_load_real_data df prefix n) \<noteq> Inl (Raised e)"
    unfolding run.simps by (rule on_ok_Inr_not_raised) (rule load_real_data_not_raised)
  with Op_load_real_data show ?thesis
    using assms by simp
next
  case (Op_load_seasonal_forcings n)
  have "run sys (Op_load_seasonal_forcings n) \<noteq> Inl (Raised e)"
    unfolding run.simps by (rule on_ok_Inr_not_raised) (rule load_seasonal_forcings_not_raised)
  with Op_load_seasonal_forcings show ?thesis
    using assms by simp
next
  case (Op_calc_talk salt pref)
  have "calc_talk salt pref = Inl (Raised e)"
  proof (rule ccontr)
    assume "calc_talk salt pref \<noteq> Inl (Raised e)"
    then have "run sys (Op_calc_talk salt pref) \<noteq> Inl (Raised e)"
      unfolding run.simps by (rule on_ok_Inr_not_raised)
    then show False
      using assms Op_calc_talk by simp
  qed
  then have "pref \<notin> {''se'', ''me'', ''ne''}
       \<and> e = ValueError ''Invalid region code. Use 'se', 'me', or 'ne'.''"
    by (rule calc_talk_raised)
  with Op_calc_talk show ?thesis
    by blast
qed (use assms in simp_all)

text \<open>
  C2. \<open>calc_talk\<close> returns \<open>48.7 * salt + 608.8\<close> for the region \<open>se\<close>,
  \<open>46.6 * salt + 670.6\<close> for \<open>me\<close> and \<open>39.1 * salt + 932.7\<close> for \<open>ne\<close>; for every
  other region string it raises a ValueError whose message names the accepted codes
  \<open>'se'\<close>, \<open>'me'\<close>, \<open>'ne'\<close>. It is the only operation of the library that raises an
  exception of its own: whenever a call of any operation, with any arguments, ends in
  such an exception, the operation is \<open>calc_talk\<close>, the region is none of the three and
  the exception is that ValueError.
\<close>

theorem calc_talk_regions:
  "calc_talk salt ''se'' = Inr (48.7 * salt + 608.8)
   \<and> calc_talk salt ''me'' = Inr (46.6 * salt + 670.6)
   \<and> calc_talk salt ''ne'' = Inr (39.1 * salt + 932.7)
   \<and> (pref \<notin> {''se'', ''me'', ''ne''} \<longrightarrow>
        calc_talk salt pref
          = Inl (Raised (ValueError ''Invalid region code. Use 'se', 'me', or 'ne'.'')))
   \<and> (\<forall>e. run sys oper = Inl (Raised e) \<longrightarrow>
        (\<exists>salt' pref'. oper = Op_calc_talk salt' pref' \<and> pref' \<notin> {''se'', ''me'', ''ne''}
            \<and> e = ValueError ''Invalid region code. Use 'se', 'me', or 'ne'.''))"
proof (intro conjI allI impI)
  show "calc_talk salt ''se'' = Inr (48.7 * salt + 608.8)"
    by (simp add: calc_talk_def)
  show "calc_talk salt ''me'' = Inr (46.6 * salt + 670.6)"
    by (simp add: calc_talk_def)
  show "calc_talk salt ''ne'' = Inr (39.1 * salt + 932.7)"
    by (simp add: calc_talk_def)
  show "calc_talk salt pref
          = Inl (Raised (ValueError ''Invalid region code. Use 'se', 'me', or 'ne'.''))"
    if "pref \<notin> {''se'', ''me'', ''ne''}"
    using that by (simp add: calc_talk_def)
  show "\<exists>salt' pref'. oper = Op_calc_talk salt' pref' \<and> pref' \<notin> {''se'', ''me'', ''ne''}
            \<and> e = ValueError ''Invalid region code. Use 'se', 'me', or 'ne'.''"
    if "run sys oper = Inl (Raised e)" for e
    using that by (rule run_raised)
qed

theorem calc_talk_regions_witness:
  "''xx'' \<notin> {''se'', ''me'', ''ne''}
   \<and> calc_talk 35 ''se'' = Inr (48.7 * 35 + 608.8)
   \<and> calc_talk 35 ''me'' = Inr (46.6 * 35 + 670.6)
   \<and> calc_talk 35 ''ne'' = Inr (39.1 * 35 + 932.7)
   \<and> calc_talk 35 ''xx''
        = Inl (Raised (ValueError ''Invalid region code. Use 'se', 'me', or 'ne'.''))
   \<and> (\<forall>e. run (\<lambda>kwargs. ()) (Op_calc_kb 288.15 35) \<noteq> Inl (Raised e))"
proof -
  note c = calc_talk_regions [of 35 "''xx''" "\<lambda>kwargs. ()" "Op_calc_kb 288.15 35"]
  have x: "''xx'' \<notin> {''se'', ''me'', ''ne''}"
    by simp
  have c1: "calc_talk 35 ''se'' = Inr (48.7 * 35 + 608.8)"
    by (rule c [THEN conjunct1])
  have c2: "calc_talk 35 ''me'' = Inr (46.6 * 35 + 670.6)"
    by (rule c [THEN conjunct2, THEN conjunct1])
  have c3: "calc_talk 35 ''ne'' = Inr (39.1 * 35 + 932.7)"
    by (rule c [THEN conjunct2, THEN conjunct2, THEN conjunct1])
  have c4: "calc_talk 35 ''xx''
        = Inl (Raised (ValueError ''Invalid region code. Use 'se', 'me', or 'ne'.''))"
    by (rule c [THEN conjunct2, THEN conjunct2, THEN conjunct2, THEN conjunct1, THEN mp, OF x])
  have c5: "\<forall>e. run (\<lambda>kwargs. ()) (Op_calc_kb 288.15 35) \<noteq> Inl (Raised e)"
  proof (intro allI notI)
    fix e
    assume "run (\<lambda>kwargs. ()) (Op_calc_kb 288.15 35) = Inl (Raised e)"
    then have "\<exists>salt' pref'. Op_calc_kb 288.15 35 = Op_calc_talk salt' pref'
        \<and> pref' \<notin> {''se'', ''me'', ''ne''}
        \<and> e = ValueError ''Invalid region code. Use 'se', 'me', or 'ne'.''"
      by (rule c [THEN conjunct2, THEN conjunct2, THEN conjunct2, THEN conjunct2,
            THEN spec, THEN mp])
    then show False
      by simp
  qed
  show ?thesis
    by (intro conjI x c1 c2 c3 c4 c5)
qed

subsection \<open>Gas exchange\<close>

text \<open>
  C3. For every wind speed, Celsius temperature and salinity, \<open>piston_velocity\<close> is
  \<open>0.24 * kappa * k0\<close>, where \<open>kappa\<close> is \<open>0.251 * w^2 * (schmidt(T_C) / 660)^-0.5\<close> and
  \<open>k0\<close> is the solubility constant of Weiss (1974), the function \<open>calculate_k0\<close>, at
  the Kelvin temperature \<open>T_C + 273.15\<close> and the salinity.
\<close>

theorem piston_velocity_formula:
  "piston_velocity w T_C S =
     (let kappa = 0.251 * w^2 * (schmidt T_C / 660) powr (- 0.5);
          T_K = T_C + 273.15;
          k0 = exp (- 60.2409 + 93.4517 / (T_K / 100) + 23.3585 * ln (T_K / 100)
                    + S * (0.023517 - 0.023656 * (T_K / 100) + 0.0047036 * (T_K / 100)^2))
      in 0.24 * kappa * k0)
   \<and> piston_velocity w T_C S
       = 0.24 * (0.251 * w^2 * (schmidt T_C / 660) powr (- 0.5)) * calculate_k0 (T_C + 273.15) S"
  unfolding piston_velocity_def calculate_kappa_def calculate_k0_def Let_def
  by (rule conjI; rule refl)

theorem piston_velocity_formula_witness:
  "piston_velocity 7 15 33.5
     = 0.24 * (0.251 * 7^2 * (schmidt 15 / 660) powr (- 0.5)) * calculate_k0 (15 + 273.15) 33.5"
  using piston_velocity_formula [of 7 15 "33.5"] by blast

subsection \<open>Total boron\<close>

text \<open>
  C4. For every salinity \<open>S \<ge> 0\<close>, \<open>calc_boron S\<close> equals \<open>(0.0004157 / 35) * S\<close>
  exactly: the coefficient is the constant \<open>0.0004157 / 35\<close> and the function multiplies
  the salinity by it.
\<close>

theorem calc_boron_exact: "0 \<le> S \<Longrightarrow> calc_boron S = (0.0004157 / 35) * S"
  by (simp add: calc_boron_def BORON_COEFFICIENT_def)

theorem calc_boron_exact_witness: "(0::real) \<le> 35 \<and> calc_boron 35 = (0.0004157 / 35) * 35"
  using calc_boron_exact [of 35] by simp

subsection \<open>Schmidt number\<close>

text \<open>
  C7, as stated: \<open>schmidt(20)\<close> equals 668.84 to two decimal places. With the
  coefficients of the implemented polynomial the value is 665.988, which is 665.99 to
  two decimal places.
\<close>

theorem schmidt_20_counterexample:
  "to_2_decimal_places (schmidt 20) \<noteq> 668.84 \<and> \<bar>schmidt 20 - 668.84\<bar> > 2"
  by (simp add: schmidt_def to_2_decimal_places_def round_def)

text \<open>
  C7, amended. \<open>schmidt(20)\<close>, evaluated with the coefficients 2073.1, -125.62, 3.6276,
  -0.043219 of the implemented cubic polynomial, is 665.988 and so equals 665.99 to two
  decimal places.
\<close>

theorem schmidt_20:
  "schmidt 20 = 2073.1 - 125.62 * 20 + 3.6276 * 20^2 - 0.043219 * 20^3
   \<and> schmidt 20 = 665.988
   \<and> to_2_decimal_places (schmidt 20) = 665.99"
  by (simp add: schmidt_def to_2_decimal_places_def round_def)

subsection \<open>Initial conditions\<close>

text \<open>
  C8. \<open>compute_initial_conditions\<close> calls the external solver once, on a keyword
  dictionary of exactly six entries: \<open>par1\<close> is the alkalinity under the type code of
  total alkalinity, \<open>par2\<close> is the pCO2 under the type code of pCO2, temperature and
  salinity are passed unchanged; and it returns the solver's result unmodified.
\<close>

theorem compute_initial_conditions_call:
  "\<exists>kwargs. compute_initial_conditions sys pCO2 alk temp sal = sys kwargs
     \<and> kwargs ''par1'' = Some (PyFloat alk)
     \<and> kwargs ''par1_type'' = Some (PyInt TYPE_ALKALINITY)
     \<and> kwargs ''par2'' = Some (PyFloat pCO2)
     \<and> kwargs ''par2_type'' = Some (PyInt TYPE_PCO2)
     \<and> kwargs ''temperature'' = Some (PyFloat temp)
     \<and> kwargs ''salinity'' = Some (PyFloat sal)
     \<and> dom kwargs = {''par1'', ''par2'', ''par1_type'', ''par2_type'', ''temperature'', ''salinity''}"
  unfolding compute_initial_conditions_def Let_def TYPE_ALKALINITY_def TYPE_PCO2_def
  by (rule exI, rule conjI, rule refl) auto

theorem compute_initial_conditions_call_witness:
  "compute_initial_conditions (\<lambda>kwargs. kwargs ''par1'') 395 2300 15 33.5 = Some (PyFloat 2300)
   \<and> compute_initial_conditions (\<lambda>kwargs. kwargs ''par2_type'') 395 2300 15 33.5 = Some (PyInt 4)"
proof -
  obtain k1 where "compute_initial_conditions (\<lambda>kwargs. kwargs ''par1'') 395 2300 15 33.5 = k1 ''par1''"
    and "k1 ''par1'' = Some (PyFloat 2300)"
    using compute_initial_conditions_call [of "\<lambda>kwargs. kwargs ''par1''" 395 2300 15 "33.5"]
    by blast
  moreover obtain k2 where
    "compute_initial_conditions (\<lambda>kwargs. kwargs ''par2_type'') 395 2300 15 33.5 = k2 ''par2_type''"
    and "k2 ''par2_type'' = Some (PyInt TYPE_PCO2)"
    using compute_initial_conditions_call [of "\<lambda>kwargs. kwargs ''par2_type''" 395 2300 15 "33.5"]
    by blast
  ultimately show ?thesis
    by (simp add: TYPE_PCO2_def)
qed

subsection \<open>The two solubility functions\<close>

text \<open>
  C10. The two implementations of the solubility constant, \<open>calculate_k0\<close> and
  \<open>calc_k0\<close>, are extensionally equal: they agree at every Kelvin temperature and
  every salinity.
\<close>

theorem k0_implementations_equal: "calculate_k0 = calc_k0"
  by (rule ext, rule ext) (simp add: calculate_k0_def calc_k0_def)

theorem k0_implementations_equal_witness: "calculate_k0 288.15 33.5 = calc_k0 288.15 33.5"
  using k0_implementations_equal by simp

end
